theory Spec2Isabelle
  imports Main "HOL-Library.Word"
begin

section \<open>Binary payload codec\<close>

text \<open>
  The scripts under \<^verbatim>\<open>src/contracts\<close> rewrite Move sources; the Move functions they
  emit (the text of their replacement templates) are the dispatch sites modelled here.
  Those functions call a byte reader (\<^verbatim>\<open>bcs::new\<close>, \<^verbatim>\<open>bcs::peel_*\<close>,
  \<^verbatim>\<open>bcs_validation::validate_all_bytes_consumed\<close>, \<^verbatim>\<open>bcs::to_bytes\<close>) that is not part of
  the sources.
\<close>

type_synonym byte = "8 word"
type_synonym u64 = "64 word"

datatype error =
    EWrongAction
  | EUnsupportedActionVersion
  | MalformedPayload
  | EIndexOutOfBounds
  | EInvalidRatio
  | EInvalidThreshold
  | EDissolutionNotActive
  | EEmptyAssetList
  | EInvalidRecipient
  | ENotDissolving
  | EInvalidUTF8

text \<open>Sequencing of fallible steps: the first abort wins.\<close>

definition and_then :: "error + 'a \<Rightarrow> ('a \<Rightarrow> error + 'b) \<Rightarrow> error + 'b" where
  "and_then r f = (case r of Inl e \<Rightarrow> Inl e | Inr x \<Rightarrow> f x)"

text \<open>
  Modelled from the spec: the Binary Payload Codec (section 4.1), whose Move module is
  missing from the sources. Fixed-width unsigned integers are little-endian, a boolean is
  one byte 0 or 1, an address is 32 bytes, a variable-length sequence is its length as a
  base-128 varint followed by its elements; every mismatch is \<open>MalformedPayload\<close>.
\<close>

fun le_bytes :: "nat \<Rightarrow> nat \<Rightarrow> byte list" where
  "le_bytes 0 n = []"
| "le_bytes (Suc k) n = of_nat (n mod 256) # le_bytes k (n div 256)"

fun le_value :: "byte list \<Rightarrow> nat" where
  "le_value [] = 0"
| "le_value (b # bs) = unat b + 256 * le_value bs"

fun uleb128 :: "nat \<Rightarrow> byte list" where
  "uleb128 n = (if n < 128 then [of_nat n] else of_nat (128 + n mod 128) # uleb128 (n div 128))"

declare uleb128.simps [simp del]

definition to_bytes_u8 :: "byte \<Rightarrow> byte list" where
  "to_bytes_u8 b = [b]"

definition to_bytes_bool :: "bool \<Rightarrow> byte list" where
  "to_bytes_bool b = [if b then 1 else 0]"

definition to_bytes_u64 :: "u64 \<Rightarrow> byte list" where
  "to_bytes_u64 w = le_bytes 8 (unat w)"

definition to_bytes_vec_u8 :: "byte list \<Rightarrow> byte list" where
  "to_bytes_vec_u8 v = uleb128 (length v) @ v"

definition to_bytes_vec_vec_u8 :: "byte list list \<Rightarrow> byte list" where
  "to_bytes_vec_vec_u8 vs = uleb128 (length vs) @ concat (map to_bytes_vec_u8 vs)"

definition to_bytes_address :: "byte list \<Rightarrow> byte list" where
  "to_bytes_address a = a"

definition peel_u8 :: "byte list \<Rightarrow> error + (byte \<times> byte list)" where
  "peel_u8 bs = (case bs of [] \<Rightarrow> Inl MalformedPayload | b # r \<Rightarrow> Inr (b, r))"

definition peel_bool :: "byte list \<Rightarrow> error + (bool \<times> byte list)" where
  "peel_bool bs = (case bs of [] \<Rightarrow> Inl MalformedPayload
     | b # r \<Rightarrow> if b = 0 then Inr (False, r) else if b = 1 then Inr (True, r)
                else Inl MalformedPayload)"

definition peel_u64 :: "byte list \<Rightarrow> error + (u64 \<times> byte list)" where
  "peel_u64 bs = (if length bs < 8 then Inl MalformedPayload
     else Inr (of_nat (le_value (take 8 bs)), drop 8 bs))"

definition peel_address :: "byte list \<Rightarrow> error + (byte list \<times> byte list)" where
  "peel_address bs = (if length bs < 32 then Inl MalformedPayload
     else Inr (take 32 bs, drop 32 bs))"

fun peel_vec_length :: "byte list \<Rightarrow> error + (nat \<times> byte list)" where
  "peel_vec_length [] = Inl MalformedPayload"
| "peel_vec_length (b # bs) =
     (if b < 128 then Inr (unat b, bs)
      else (case peel_vec_length bs of Inl e \<Rightarrow> Inl e
            | Inr (n, r) \<Rightarrow> Inr (unat b - 128 + 128 * n, r)))"

definition peel_vec_u8 :: "byte list \<Rightarrow> error + (byte list \<times> byte list)" where
  "peel_vec_u8 bs = and_then (peel_vec_length bs) (\<lambda>(n, r).
     if length r < n then Inl MalformedPayload else Inr (take n r, drop n r))"

fun peel_elems :: "nat \<Rightarrow> byte list \<Rightarrow> error + (byte list list \<times> byte list)" where
  "peel_elems 0 bs = Inr ([], bs)"
| "peel_elems (Suc k) bs = and_then (peel_vec_u8 bs) (\<lambda>(v, r).
     and_then (peel_elems k r) (\<lambda>(vs, r'). Inr (v # vs, r')))"

definition peel_vec_vec_u8 :: "byte list \<Rightarrow> error + (byte list list \<times> byte list)" where
  "peel_vec_vec_u8 bs = and_then (peel_vec_length bs) (\<lambda>(n, r). peel_elems n r)"

definition validate_all_bytes_consumed :: "byte list \<Rightarrow> error + unit" where
  "validate_all_bytes_consumed r = (if r = [] then Inr () else Inl MalformedPayload)"

section \<open>Action specs, intents and the executable cursor\<close>

text \<open>
  The dissolution dispatch sites name their tags \<^verbatim>\<open>action_types::InitiateDissolution\<close>,
  \<^verbatim>\<open>DistributeAsset\<close>, \<^verbatim>\<open>FinalizeDissolution\<close> and \<^verbatim>\<open>CancelDissolution\<close>; the generic
  template of \<^verbatim>\<open>fix_do_function\<close> and \<^verbatim>\<open>fix_next_action_call\<close> compares against the type
  name of the action struct substituted for \<^verbatim>\<open>{action_type}\<close>.
\<close>

datatype ActionTag =
    InitiateDissolution
  | DistributeAsset
  | FinalizeDissolution
  | CancelDissolution
  | TypeName string

record ActionSpec =
  action_spec_type :: ActionTag
  action_spec_version :: byte
  action_spec_data :: "byte list"

record Executable =
  action_specs :: "ActionSpec list"
  action_idx :: nat

datatype OperationalState = state_active | state_dissolving | state_dissolved

record FutarchyConfig =
  operational_state :: OperationalState
  proposals_enabled :: bool

text \<open>What one dispatch call can touch: the cursor it borrows mutably and the account.\<close>

record world =
  executable :: Executable
  account :: FutarchyConfig

text \<open>
  A Move abort stops the function where it stands. \<open>Abort e w\<close> keeps the state \<open>w\<close> the
  function had reached when it aborted, so that the order of checks and mutations stays
  visible; \<open>execute_transaction\<close> below is what an observer outside the transaction sees.
\<close>

datatype outcome = Abort error world | Done world

text \<open>\<^verbatim>\<open>specs.borrow(executable::action_idx(executable))\<close>: aborts past the end.\<close>

definition borrow :: "'a list \<Rightarrow> nat \<Rightarrow> error + 'a" where
  "borrow xs i = (if i < length xs then Inr (xs ! i) else Inl EIndexOutOfBounds)"

definition current_spec :: "Executable \<Rightarrow> error + ActionSpec" where
  "current_spec ex = borrow (action_specs ex) (action_idx ex)"

text \<open>
  Modelled from the spec: \<^verbatim>\<open>action_validation::assert_action_type\<close>,
  \<^verbatim>\<open>executable::is_current_action\<close> and \<^verbatim>\<open>executable::increment_action_idx\<close> are missing
  from the sources. Section 4.4 step 1 compares the tag of the current spec with the
  expected one and fails with the wrong-action-type code; section 4.3 has \<open>advance\<close>
  increment the cursor by exactly one.
\<close>

definition assert_action_type :: "ActionTag \<Rightarrow> ActionSpec \<Rightarrow> error + unit" where
  "assert_action_type expected spec =
     (if action_spec_type spec = expected then Inr () else Inl EWrongAction)"

definition is_current_action :: "ActionTag \<Rightarrow> Executable \<Rightarrow> error + bool" where
  "is_current_action expected ex =
     and_then (current_spec ex) (\<lambda>spec. Inr (action_spec_type spec = expected))"

definition increment_action_idx :: "world \<Rightarrow> world" where
  "increment_action_idx w =
     w\<lparr>executable := (executable w)\<lparr>action_idx := action_idx (executable w) + 1\<rparr>\<rparr>"

text \<open>The narrow mutation interface of the account's config.\<close>

definition set_operational_state :: "OperationalState \<Rightarrow> world \<Rightarrow> world" where
  "set_operational_state s w = w\<lparr>account := (account w)\<lparr>operational_state := s\<rparr>\<rparr>"

definition set_proposals_enabled_internal :: "bool \<Rightarrow> world \<Rightarrow> world" where
  "set_proposals_enabled_internal b w = w\<lparr>account := (account w)\<lparr>proposals_enabled := b\<rparr>\<rparr>"

section \<open>Payload shapes and their decode steps\<close>

record InitiateDissolutionAction =
  reason :: "byte list"
  distribution_method :: byte
  burn_unsold_tokens :: bool
  final_operations_deadline :: u64

text \<open>\<^verbatim>\<open>do_initiate_dissolution\<close>, "Safe BCS deserialization".\<close>

definition decode_initiate_dissolution :: "byte list \<Rightarrow> error + InitiateDissolutionAction" where
  "decode_initiate_dissolution action_data =
     and_then (peel_vec_u8 action_data) (\<lambda>(r, reader1).
     and_then (peel_u8 reader1) (\<lambda>(dm, reader2).
     and_then (peel_bool reader2) (\<lambda>(burn, reader3).
     and_then (peel_u64 reader3) (\<lambda>(deadline, reader4).
     and_then (validate_all_bytes_consumed reader4) (\<lambda>_.
       Inr \<lparr>reason = r, distribution_method = dm, burn_unsold_tokens = burn,
            final_operations_deadline = deadline\<rparr>)))))"

text \<open>\<^verbatim>\<open>do_batch_distribute\<close>: \<^verbatim>\<open>asset_types\<close>.\<close>

definition decode_batch_distribute :: "byte list \<Rightarrow> error + byte list list" where
  "decode_batch_distribute action_data =
     and_then (peel_vec_vec_u8 action_data) (\<lambda>(asset_types, reader1).
     and_then (validate_all_bytes_consumed reader1) (\<lambda>_. Inr asset_types))"

text \<open>\<^verbatim>\<open>do_finalize_dissolution\<close>: \<^verbatim>\<open>final_recipient\<close>, \<^verbatim>\<open>destroy_account\<close>.\<close>

definition decode_finalize_dissolution :: "byte list \<Rightarrow> error + (byte list \<times> bool)" where
  "decode_finalize_dissolution action_data =
     and_then (peel_address action_data) (\<lambda>(final_recipient, reader1).
     and_then (peel_bool reader1) (\<lambda>(destroy_account, reader2).
     and_then (validate_all_bytes_consumed reader2) (\<lambda>_.
       Inr (final_recipient, destroy_account))))"

text \<open>
  \<^verbatim>\<open>do_cancel_dissolution\<close>: the bytes of \<^verbatim>\<open>reason\<close> go through \<^verbatim>\<open>string::utf8\<close> before the
  reader is checked. The UTF-8 test of the standard library is the parameter \<open>utf8_valid\<close>.
\<close>

definition string_utf8 :: "(byte list \<Rightarrow> bool) \<Rightarrow> byte list \<Rightarrow> error + byte list" where
  "string_utf8 utf8_valid bs = (if utf8_valid bs then Inr bs else Inl EInvalidUTF8)"

definition decode_cancel_dissolution ::
  "(byte list \<Rightarrow> bool) \<Rightarrow> byte list \<Rightarrow> error + byte list" where
  "decode_cancel_dissolution utf8_valid action_data =
     and_then (peel_vec_u8 action_data) (\<lambda>(reason_bytes, reader1).
     and_then (string_utf8 utf8_valid reason_bytes) (\<lambda>r.
     and_then (validate_all_bytes_consumed reader1) (\<lambda>_. Inr r)))"

definition address_zero :: "byte list" where
  "address_zero = replicate 32 0"

section \<open>Dispatch sites\<close>

text \<open>\<^verbatim>\<open>do_initiate_dissolution\<close> as emitted by \<^verbatim>\<open>fix_dissolution_actions\<close>.\<close>

definition do_initiate_dissolution :: "world \<Rightarrow> outcome" where
  "do_initiate_dissolution w =
     (case current_spec (executable w) of Inl e \<Rightarrow> Abort e w | Inr spec \<Rightarrow>
      (case assert_action_type InitiateDissolution spec of Inl e \<Rightarrow> Abort e w | Inr _ \<Rightarrow>
       (case decode_initiate_dissolution (action_spec_data spec) of Inl e \<Rightarrow> Abort e w
        | Inr a \<Rightarrow>
          (let w1 = set_operational_state state_dissolving w;
               w2 = set_proposals_enabled_internal False w1
           in if \<not> length (reason a) > 0 then Abort EInvalidRatio w2
              else if \<not> distribution_method a \<le> 2 then Abort EInvalidRatio w2
              else if \<not> final_operations_deadline a > 0 then Abort EInvalidThreshold w2
              else Done (increment_action_idx w2)))))"

text \<open>\<^verbatim>\<open>do_batch_distribute\<close> as emitted by \<^verbatim>\<open>fix_dissolution_actions\<close>.\<close>

definition do_batch_distribute :: "world \<Rightarrow> outcome" where
  "do_batch_distribute w =
     (case current_spec (executable w) of Inl e \<Rightarrow> Abort e w | Inr spec \<Rightarrow>
      (case assert_action_type DistributeAsset spec of Inl e \<Rightarrow> Abort e w | Inr _ \<Rightarrow>
       (case decode_batch_distribute (action_spec_data spec) of Inl e \<Rightarrow> Abort e w
        | Inr asset_types \<Rightarrow>
          if \<not> operational_state (account w) = state_dissolving
            then Abort EDissolutionNotActive w
          else if \<not> length asset_types > 0 then Abort EEmptyAssetList w
          else Done (increment_action_idx w))))"

text \<open>\<^verbatim>\<open>do_finalize_dissolution\<close> as emitted by \<^verbatim>\<open>fix_remaining_dissolution_actions\<close>.\<close>

definition do_finalize_dissolution :: "world \<Rightarrow> outcome" where
  "do_finalize_dissolution w =
     (case current_spec (executable w) of Inl e \<Rightarrow> Abort e w | Inr spec \<Rightarrow>
      (case assert_action_type FinalizeDissolution spec of Inl e \<Rightarrow> Abort e w | Inr _ \<Rightarrow>
       (case decode_finalize_dissolution (action_spec_data spec) of Inl e \<Rightarrow> Abort e w
        | Inr (final_recipient, destroy_account) \<Rightarrow>
          if \<not> operational_state (account w) = state_dissolving
            then Abort EDissolutionNotActive w
          else if \<not> final_recipient \<noteq> address_zero then Abort EInvalidRecipient w
          else Done (increment_action_idx (set_operational_state state_dissolved w)))))"

text \<open>\<^verbatim>\<open>do_cancel_dissolution\<close> as emitted by \<^verbatim>\<open>fix_remaining_dissolution_actions\<close>.\<close>

definition do_cancel_dissolution :: "(byte list \<Rightarrow> bool) \<Rightarrow> world \<Rightarrow> outcome" where
  "do_cancel_dissolution utf8_valid w =
     (case current_spec (executable w) of Inl e \<Rightarrow> Abort e w | Inr spec \<Rightarrow>
      (case assert_action_type CancelDissolution spec of Inl e \<Rightarrow> Abort e w | Inr _ \<Rightarrow>
       (case decode_cancel_dissolution utf8_valid (action_spec_data spec) of Inl e \<Rightarrow> Abort e w
        | Inr r \<Rightarrow>
          if \<not> operational_state (account w) = state_dissolving then Abort ENotDissolving w
          else if \<not> length r > 0 then Abort EInvalidRatio w
          else Done (increment_action_idx
                 (set_proposals_enabled_internal True (set_operational_state state_active w))))))"

text \<open>
  The template of \<^verbatim>\<open>fix_do_function\<close> (and, with the same text, of
  \<^verbatim>\<open>fix_next_action_call\<close>): tag assertion, version assertion, \<^verbatim>\<open>bcs::from_bytes\<close>, the rest
  of the rewritten function, and the increment appended before its last brace. The
  deserializer \<open>from_bytes\<close> and the untouched rest of the function body \<open>rest\<close> are
  parameters; \<open>rest\<close> returns the account it reached and the abort code, if it aborted.
\<close>

definition do_template ::
  "ActionTag \<Rightarrow> (byte list \<Rightarrow> error + 'a) \<Rightarrow> ('a \<Rightarrow> FutarchyConfig \<Rightarrow> error option \<times> FutarchyConfig)
     \<Rightarrow> world \<Rightarrow> outcome" where
  "do_template action_type from_bytes rest w =
     (case is_current_action action_type (executable w) of Inl e \<Rightarrow> Abort e w
      | Inr ok \<Rightarrow>
        if \<not> ok then Abort EWrongAction w
        else (case current_spec (executable w) of Inl e \<Rightarrow> Abort e w | Inr spec \<Rightarrow>
          if \<not> action_spec_version spec = 1 then Abort EUnsupportedActionVersion w
          else (case from_bytes (action_spec_data spec) of Inl e \<Rightarrow> Abort e w
            | Inr action \<Rightarrow>
              (case rest action (account w) of
                 (Some e, acc) \<Rightarrow> Abort e (w\<lparr>account := acc\<rparr>)
               | (None, acc) \<Rightarrow> Done (increment_action_idx (w\<lparr>account := acc\<rparr>))))))"


text \<open>
  Modelled from the spec: the caller that drives one intent (section 2, data flow). It
  calls one dispatch operation after the other and stops at the first abort.
\<close>

fun dispatch_all :: "(world \<Rightarrow> outcome) list \<Rightarrow> world \<Rightarrow> outcome" where
  "dispatch_all [] w = Done w"
| "dispatch_all (f # fs) w =
     (case f w of Abort e w' \<Rightarrow> Abort e w' | Done w' \<Rightarrow> dispatch_all fs w')"

datatype dispatch_site =
    DoInitiateDissolution
  | DoBatchDistribute
  | DoFinalizeDissolution
  | DoCancelDissolution

fun dispatch :: "(byte list \<Rightarrow> bool) \<Rightarrow> dispatch_site \<Rightarrow> world \<Rightarrow> outcome" where
  "dispatch utf8_valid DoInitiateDissolution = do_initiate_dissolution"
| "dispatch utf8_valid DoBatchDistribute = do_batch_distribute"
| "dispatch utf8_valid DoFinalizeDissolution = do_finalize_dissolution"
| "dispatch utf8_valid DoCancelDissolution = do_cancel_dissolution utf8_valid"

section \<open>Constructors\<close>

text \<open>
  \<^verbatim>\<open>bcs::to_bytes(&action)\<close> on a struct: its fields in declaration order. Only the
  constructor of \<^verbatim>\<open>InitiateDissolutionAction\<close> is emitted by the scripts.
\<close>

definition to_bytes_initiate_dissolution :: "InitiateDissolutionAction \<Rightarrow> byte list" where
  "to_bytes_initiate_dissolution a =
     to_bytes_vec_u8 (reason a) @ to_bytes_u8 (distribution_method a)
       @ to_bytes_bool (burn_unsold_tokens a) @ to_bytes_u64 (final_operations_deadline a)"

text \<open>\<^verbatim>\<open>new_initiate_dissolution_action\<close> as emitted by \<^verbatim>\<open>fix_dissolution_actions\<close>.\<close>

definition new_initiate_dissolution_action ::
  "byte list \<Rightarrow> byte \<Rightarrow> bool \<Rightarrow> u64 \<Rightarrow> error + byte list" where
  "new_initiate_dissolution_action r dm burn deadline =
     (if \<not> dm \<le> 2 then Inl EInvalidRatio
      else if \<not> length r > 0 then Inl EInvalidRatio
      else (let action = \<lparr>reason = r, distribution_method = dm, burn_unsold_tokens = burn,
                           final_operations_deadline = deadline\<rparr>;
                bytes = to_bytes_initiate_dissolution action
            in Inr bytes))"

text \<open>
  Modelled from the spec: the serializations of the three payloads whose constructors
  the scripts do not emit, as the dual of the decode steps above (section 4.4).
\<close>

definition to_bytes_batch_distribute :: "byte list list \<Rightarrow> byte list" where
  "to_bytes_batch_distribute asset_types = to_bytes_vec_vec_u8 asset_types"

definition to_bytes_finalize_dissolution :: "byte list \<times> bool \<Rightarrow> byte list" where
  "to_bytes_finalize_dissolution a =
     (case a of (final_recipient, destroy_account) \<Rightarrow>
        to_bytes_address final_recipient @ to_bytes_bool destroy_account)"

definition to_bytes_cancel_dissolution :: "byte list \<Rightarrow> byte list" where
  "to_bytes_cancel_dissolution r = to_bytes_vec_u8 r"

section \<open>Scenario values\<close>

text \<open>The bytes of "wind down", and a world whose intent holds a single action.\<close>

definition wind_down :: "byte list" where
  "wind_down = [119, 105, 110, 100, 32, 100, 111, 119, 110]"

definition one_action :: "ActionTag \<Rightarrow> byte \<Rightarrow> byte list \<Rightarrow> OperationalState \<Rightarrow> world" where
  "one_action t v payload st =
     \<lparr>executable = \<lparr>action_specs = [\<lparr>action_spec_type = t, action_spec_version = v,
                                        action_spec_data = payload\<rparr>], action_idx = 0\<rparr>,
      account = \<lparr>operational_state = st, proposals_enabled = True\<rparr>\<rparr>"

text \<open>
  Payloads of \<^verbatim>\<open>InitiateDissolutionAction\<close>: reason "wind down", method 1, no burn,
  deadline 1000; the same with an empty reason; reason "w" with deadline 0. A payload of
  the finalize action: recipient \<^verbatim>\<open>@0x1\<close>, no destruction.
\<close>

definition wind_down_payload :: "byte list" where
  "wind_down_payload =
     [9, 119, 105, 110, 100, 32, 100, 111, 119, 110, 1, 0, 232, 3, 0, 0, 0, 0, 0, 0]"

definition empty_reason_payload :: "byte list" where
  "empty_reason_payload = [0, 1, 0, 232, 3, 0, 0, 0, 0, 0, 0]"


definition finalize_payload :: "byte list" where
  "finalize_payload = replicate 31 0 @ [1, 0]"

text \<open>The state a call of a dispatch site left behind, for the single-action worlds.\<close>

definition reached :: "ActionTag \<Rightarrow> byte \<Rightarrow> byte list \<Rightarrow> nat \<Rightarrow> OperationalState \<Rightarrow> bool \<Rightarrow> world" where
  "reached t v payload idx st enabled =
     \<lparr>executable = \<lparr>action_specs = [\<lparr>action_spec_type = t, action_spec_version = v,
                                        action_spec_data = payload\<rparr>], action_idx = idx\<rparr>,
      account = \<lparr>operational_state = st, proposals_enabled = enabled\<rparr>\<rparr>"

text \<open>One successful dispatch step, seen from the cursor.\<close>

definition advanced :: "world \<Rightarrow> world \<Rightarrow> bool" where
  "advanced w w' \<longleftrightarrow>
     action_idx (executable w') = action_idx (executable w) + 1
     \<and> action_specs (executable w') = action_specs (executable w)
     \<and> action_idx (executable w') \<le> length (action_specs (executable w'))"

section \<open>The codec reads back what it wrote\<close>

lemma unat_byte_of_nat: "n < 256 \<Longrightarrow> unat (of_nat n :: byte) = n"
  by (simp add: unat_of_nat)

lemma peel_vec_length_uleb128: "peel_vec_length (uleb128 n @ r) = Inr (n, r)"
proof (induction n rule: uleb128.induct)
  case (1 n)
  show ?case
  proof (cases "n < 128")
    case True
    then have "(of_nat n :: byte) < 128"
      by (simp add: word_less_nat_alt unat_of_nat)
    with True show ?thesis
      by (simp add: uleb128.simps [of n] unat_of_nat)
  next
    case False
    have u: "unat (of_nat (128 + n mod 128) :: byte) = 128 + n mod 128"
      by (subst unat_of_nat) simp
    then have nl: "\<not> (of_nat (128 + n mod 128) :: byte) < 128"
      unfolding word_less_nat_alt by simp
    have "peel_vec_length (uleb128 n @ r) =
        peel_vec_length (of_nat (128 + n mod 128) # (uleb128 (n div 128) @ r))"
      using False by (subst uleb128.simps) simp
    also have "\<dots> = Inr (n, r)"
      using nl u 1 [OF False] unfolding peel_vec_length.simps by simp
    finally show ?thesis .
  qed
qed

lemma length_le_bytes: "length (le_bytes k n) = k"
  by (induction k arbitrary: n) simp_all

lemma le_value_le_bytes: "le_value (le_bytes k n) = n mod 256 ^ k"
proof (induction k arbitrary: n)
  case 0
  show ?case by simp
next
  case (Suc k)
  have "n mod 256 + 256 * (n div 256 mod 256 ^ k) = n mod (256 * 256 ^ k)"
    by (simp add: mod_mult2_eq)
  with Suc show ?case by (simp add: unat_of_nat)
qed

lemma peel_u64_to_bytes: "peel_u64 (to_bytes_u64 v @ r) = Inr (v, r)"
proof -
  have "unat v < 2 ^ 64" using unsigned_less [of v] by simp
  then have "unat v mod 256 ^ 8 = unat v" by simp
  then show ?thesis
    by (simp add: peel_u64_def to_bytes_u64_def length_le_bytes le_value_le_bytes
        del: le_bytes.simps)
qed

lemma peel_u8_to_bytes: "peel_u8 (to_bytes_u8 v @ r) = Inr (v, r)"
  by (simp add: peel_u8_def to_bytes_u8_def)

lemma peel_bool_to_bytes: "peel_bool (to_bytes_bool v @ r) = Inr (v, r)"
  by (simp add: peel_bool_def to_bytes_bool_def)

lemma peel_address_to_bytes:
  "length a = 32 \<Longrightarrow> peel_address (to_bytes_address a @ r) = Inr (a, r)"
  by (simp add: peel_address_def to_bytes_address_def)

lemma peel_vec_u8_to_bytes: "peel_vec_u8 (to_bytes_vec_u8 v @ r) = Inr (v, r)"
  by (simp add: peel_vec_u8_def to_bytes_vec_u8_def peel_vec_length_uleb128 and_then_def)

lemma peel_elems_to_bytes:
  "peel_elems (length vs) (concat (map to_bytes_vec_u8 vs) @ r) = Inr (vs, r)"
  by (induction vs) (simp_all add: peel_vec_u8_to_bytes and_then_def)

lemma peel_vec_vec_u8_to_bytes: "peel_vec_vec_u8 (to_bytes_vec_vec_u8 vs @ r) = Inr (vs, r)"
  by (simp add: peel_vec_vec_u8_def to_bytes_vec_vec_u8_def peel_vec_length_uleb128
      peel_elems_to_bytes and_then_def)


lemma decode_initiate_append:
  "decode_initiate_dissolution (to_bytes_initiate_dissolution a @ extra) =
     (if extra = [] then Inr a else Inl MalformedPayload)"
  by (simp add: decode_initiate_dissolution_def to_bytes_initiate_dissolution_def
      peel_vec_u8_to_bytes peel_u8_to_bytes peel_bool_to_bytes peel_u64_to_bytes
      validate_all_bytes_consumed_def and_then_def)

lemma decode_batch_append:
  "decode_batch_distribute (to_bytes_batch_distribute ts @ extra) =
     (if extra = [] then Inr ts else Inl MalformedPayload)"
  by (simp add: decode_batch_distribute_def to_bytes_batch_distribute_def
      peel_vec_vec_u8_to_bytes validate_all_bytes_consumed_def and_then_def)

lemma decode_finalize_append:
  "length r = 32 \<Longrightarrow>
   decode_finalize_dissolution (to_bytes_finalize_dissolution (r, d) @ extra) =
     (if extra = [] then Inr (r, d) else Inl MalformedPayload)"
  by (simp add: decode_finalize_dissolution_def to_bytes_finalize_dissolution_def
      peel_address_to_bytes peel_bool_to_bytes validate_all_bytes_consumed_def and_then_def)

lemma decode_cancel_append:
  "utf8_valid r \<Longrightarrow>
   decode_cancel_dissolution utf8_valid (to_bytes_cancel_dissolution r @ extra) =
     (if extra = [] then Inr r else Inl MalformedPayload)"
  by (simp add: decode_cancel_dissolution_def to_bytes_cancel_dissolution_def
      peel_vec_u8_to_bytes string_utf8_def validate_all_bytes_consumed_def and_then_def)

text \<open>Evaluation of the codec on small concrete values.\<close>

lemma uleb128_small: "n < 128 \<Longrightarrow> uleb128 n = [of_nat n]"
  by (subst uleb128.simps) simp

lemma eight: "(8::nat) = Suc (Suc (Suc (Suc (Suc (Suc (Suc (Suc 0)))))))"
  by simp

lemma le_bytes_8: "le_bytes 8 n = [of_nat (n mod 256), of_nat (n div 256 mod 256),
   of_nat (n div 256 div 256 mod 256), of_nat (n div 256 div 256 div 256 mod 256),
   of_nat (n div 256 div 256 div 256 div 256 mod 256),
   of_nat (n div 256 div 256 div 256 div 256 div 256 mod 256),
   of_nat (n div 256 div 256 div 256 div 256 div 256 div 256 mod 256),
   of_nat (n div 256 div 256 div 256 div 256 div 256 div 256 div 256 mod 256)]"
  by (simp only: eight le_bytes.simps)

lemmas to_bytes_defs = to_bytes_initiate_dissolution_def to_bytes_vec_u8_def to_bytes_u8_def
  to_bytes_bool_def to_bytes_u64_def to_bytes_finalize_dissolution_def to_bytes_address_def
  uleb128_small le_bytes_8

lemmas dispatch_defs = do_initiate_dissolution_def do_batch_distribute_def
  do_finalize_dissolution_def do_cancel_dissolution_def do_template_def
  is_current_action_def assert_action_type_def and_then_def

section \<open>Tag check\<close>

text \<open>
  C1. Whenever the action spec under the cursor carries a tag other than the one a
  dispatch site expects, the site aborts with the wrong-action code in the very state it
  was called in, whatever the payload bytes are and whatever the deserializer of the
  generic template would do with them: the payload never reaches the decode step.
\<close>

theorem tag_mismatch_aborts_before_decode:
  assumes "current_spec (executable w) = Inr spec"
  shows "(action_spec_type spec \<noteq> InitiateDissolution \<longrightarrow>
            do_initiate_dissolution w = Abort EWrongAction w)
       \<and> (action_spec_type spec \<noteq> DistributeAsset \<longrightarrow>
            do_batch_distribute w = Abort EWrongAction w)
       \<and> (action_spec_type spec \<noteq> FinalizeDissolution \<longrightarrow>
            do_finalize_dissolution w = Abort EWrongAction w)
       \<and> (action_spec_type spec \<noteq> CancelDissolution \<longrightarrow>
            do_cancel_dissolution utf8_valid w = Abort EWrongAction w)
       \<and> (action_spec_type spec \<noteq> expected \<longrightarrow>
            do_template expected from_bytes rest w = Abort EWrongAction w)"
  using assms
  by (simp add: do_initiate_dissolution_def do_batch_distribute_def
      do_finalize_dissolution_def do_cancel_dissolution_def do_template_def
      is_current_action_def assert_action_type_def and_then_def)

theorem tag_mismatch_aborts_before_decode_witness:
  "do_initiate_dissolution (one_action CancelDissolution 1 wind_down state_active)
     = Abort EWrongAction (one_action CancelDissolution 1 wind_down state_active)
   \<and> do_template (TypeName ''MemoAction'') (\<lambda>bs. Inl MalformedPayload :: error + unit) (\<lambda>a c. (None, c))
        (one_action CancelDissolution 1 wind_down state_active)
     = Abort EWrongAction (one_action CancelDissolution 1 wind_down state_active)"
proof -
  have "current_spec (executable (one_action CancelDissolution 1 wind_down state_active))
      = Inr \<lparr>action_spec_type = CancelDissolution, action_spec_version = 1,
             action_spec_data = wind_down\<rparr>"
    by (simp add: current_spec_def borrow_def one_action_def)
  from tag_mismatch_aborts_before_decode [OF this,
      where expected = "TypeName ''MemoAction''" and utf8_valid = "\<lambda>bs. True"
        and from_bytes = "\<lambda>bs. Inl MalformedPayload :: error + unit" and rest = "\<lambda>a c. (None, c)"]
  show ?thesis by simp
qed

section \<open>Exact consumption\<close>



section \<open>Round trip\<close>

text \<open>
  C8. Decoding the serialization of a payload gives the payload back: for the bytes the
  constructor \<^verbatim>\<open>new_initiate_dissolution_action\<close> returns, and for the serializations of the
  batch-distribute, finalize (a 32-byte address) and cancel (a UTF-8 reason) payloads.
\<close>

theorem decode_encode_roundtrip:
  "decode_initiate_dissolution (to_bytes_initiate_dissolution a) = Inr a
   \<and> (new_initiate_dissolution_action rs dm burn deadline = Inr bytes \<longrightarrow>
        decode_initiate_dissolution bytes
          = Inr \<lparr>reason = rs, distribution_method = dm, burn_unsold_tokens = burn,
                 final_operations_deadline = deadline\<rparr>)
   \<and> decode_batch_distribute (to_bytes_batch_distribute ts) = Inr ts
   \<and> (length r = 32 \<longrightarrow>
        decode_finalize_dissolution (to_bytes_finalize_dissolution (r, d)) = Inr (r, d))
   \<and> (utf8_valid s \<longrightarrow>
        decode_cancel_dissolution utf8_valid (to_bytes_cancel_dissolution s) = Inr s)"
  using decode_initiate_append [where extra = "[]"] decode_batch_append [where extra = "[]"]
    decode_finalize_append [where extra = "[]"] decode_cancel_append [where extra = "[]"]
  by (auto simp add: new_initiate_dissolution_action_def Let_def split: if_splits)

theorem decode_encode_roundtrip_witness:
  "new_initiate_dissolution_action wind_down 1 False 1000
     = Inr [9, 119, 105, 110, 100, 32, 100, 111, 119, 110, 1, 0, 232, 3, 0, 0, 0, 0, 0, 0]
   \<and> decode_initiate_dissolution
        [9, 119, 105, 110, 100, 32, 100, 111, 119, 110, 1, 0, 232, 3, 0, 0, 0, 0, 0, 0]
       = Inr \<lparr>reason = wind_down, distribution_method = 1, burn_unsold_tokens = False,
              final_operations_deadline = 1000\<rparr>
   \<and> decode_finalize_dissolution (to_bytes_finalize_dissolution (replicate 31 0 @ [1], True))
       = Inr (replicate 31 0 @ [1], True)
   \<and> decode_cancel_dissolution (\<lambda>bs. True) (to_bytes_cancel_dissolution wind_down)
       = Inr wind_down"
proof -
  have c: "new_initiate_dissolution_action wind_down 1 False 1000
     = Inr [9, 119, 105, 110, 100, 32, 100, 111, 119, 110, 1, 0, 232, 3, 0, 0, 0, 0, 0, 0]"
    by (simp add: new_initiate_dissolution_action_def to_bytes_defs wind_down_def)
  from c decode_encode_roundtrip [where rs = wind_down and dm = 1 and burn = False
      and deadline = 1000
      and bytes = "[9, 119, 105, 110, 100, 32, 100, 111, 119, 110, 1, 0, 232, 3, 0, 0, 0, 0, 0, 0]"
      and r = "replicate 31 0 @ [1]" and d = True and utf8_valid = "\<lambda>bs. True"
      and s = wind_down and ts = "[]"
      and a = "\<lparr>reason = wind_down, distribution_method = 1, burn_unsold_tokens = False,
              final_operations_deadline = 1000\<rparr>"]
  show ?thesis by simp
qed

section \<open>Dispatch sites: cursor and evaluation lemmas\<close>


lemma empty_reason_payload_eq:
  "empty_reason_payload = to_bytes_initiate_dissolution
     \<lparr>reason = [], distribution_method = 1, burn_unsold_tokens = False,
      final_operations_deadline = 1000\<rparr>"
  by (simp add: empty_reason_payload_def to_bytes_defs)


lemma finalize_payload_eq:
  "finalize_payload = to_bytes_finalize_dissolution (replicate 31 0 @ [1], False)"
  by (simp add: finalize_payload_def to_bytes_defs)

lemma current_spec_one_action:
  "current_spec (executable (one_action t v p st))
     = Inr \<lparr>action_spec_type = t, action_spec_version = v, action_spec_data = p\<rparr>"
  by (simp add: current_spec_def borrow_def one_action_def)

lemma initiate_abort_keeps_executable:
  "do_initiate_dissolution w = Abort e w' \<Longrightarrow> executable w' = executable w"
  by (auto simp add: do_initiate_dissolution_def Let_def set_operational_state_def
      set_proposals_enabled_internal_def split: sum.splits if_splits)

lemma batch_abort_keeps_executable:
  "do_batch_distribute w = Abort e w' \<Longrightarrow> executable w' = executable w"
  by (auto simp add: do_batch_distribute_def split: sum.splits if_splits)

lemma finalize_abort_keeps_executable:
  "do_finalize_dissolution w = Abort e w' \<Longrightarrow> executable w' = executable w"
  by (auto simp add: do_finalize_dissolution_def split: sum.splits if_splits prod.splits)

lemma cancel_abort_keeps_executable:
  "do_cancel_dissolution u w = Abort e w' \<Longrightarrow> executable w' = executable w"
  by (auto simp add: do_cancel_dissolution_def split: sum.splits if_splits)


lemma current_spec_in_range:
  "current_spec ex = Inr spec \<Longrightarrow> action_idx ex < length (action_specs ex)"
  by (simp add: current_spec_def borrow_def split: if_splits)

lemma initiate_done_advanced: "do_initiate_dissolution w = Done w' \<Longrightarrow> advanced w w'"
  by (auto simp add: do_initiate_dissolution_def Let_def set_operational_state_def
      set_proposals_enabled_internal_def increment_action_idx_def advanced_def
      dest!: current_spec_in_range split: sum.splits if_splits)

lemma batch_done_advanced: "do_batch_distribute w = Done w' \<Longrightarrow> advanced w w'"
  by (auto simp add: do_batch_distribute_def increment_action_idx_def advanced_def
      dest!: current_spec_in_range split: sum.splits if_splits)

lemma finalize_done_advanced: "do_finalize_dissolution w = Done w' \<Longrightarrow> advanced w w'"
  by (auto simp add: do_finalize_dissolution_def set_operational_state_def
      increment_action_idx_def advanced_def
      dest!: current_spec_in_range split: sum.splits if_splits prod.splits)

lemma cancel_done_advanced: "do_cancel_dissolution u w = Done w' \<Longrightarrow> advanced w w'"
  by (auto simp add: do_cancel_dissolution_def set_operational_state_def
      set_proposals_enabled_internal_def increment_action_idx_def advanced_def
      dest!: current_spec_in_range split: sum.splits if_splits)

lemma template_done_advanced:
  "do_template t from_bytes rest w = Done w' \<Longrightarrow> advanced w w'"
  by (auto simp add: do_template_def increment_action_idx_def advanced_def
      dest!: current_spec_in_range split: sum.splits if_splits prod.splits option.splits)

lemma dispatch_done_advanced: "dispatch u site w = Done w' \<Longrightarrow> advanced w w'"
  by (cases site) (simp_all add: initiate_done_advanced batch_done_advanced
      finalize_done_advanced cancel_done_advanced)

lemma dispatch_abort_keeps_executable:
  "dispatch u site w = Abort e w' \<Longrightarrow> executable w' = executable w"
  by (cases site) (simp_all add: initiate_abort_keeps_executable batch_abort_keeps_executable
      finalize_abort_keeps_executable cancel_abort_keeps_executable)

lemma dispatch_all_done:
  "dispatch_all (map (dispatch u) sites) w = Done w' \<Longrightarrow>
     action_idx (executable w') = action_idx (executable w) + length sites
     \<and> action_specs (executable w') = action_specs (executable w)
     \<and> (sites \<noteq> [] \<longrightarrow> action_idx (executable w') \<le> length (action_specs (executable w')))"
proof (induction sites arbitrary: w)
  case Nil
  then show ?case by simp
next
  case (Cons site sites)
  from Cons.prems obtain w1 where s: "dispatch u site w = Done w1"
    and r: "dispatch_all (map (dispatch u) sites) w1 = Done w'"
    by (auto split: outcome.splits)
  from dispatch_done_advanced [OF s] Cons.IH [OF r] show ?case
    by (cases sites) (auto simp add: advanced_def)
qed

lemma dispatch_all_abort:
  "dispatch_all (map (dispatch u) sites) w = Abort e w' \<Longrightarrow>
     \<exists>k < length sites. action_idx (executable w') = action_idx (executable w) + k
       \<and> action_specs (executable w') = action_specs (executable w)"
proof (induction sites arbitrary: w)
  case Nil
  then show ?case by simp
next
  case (Cons site sites)
  show ?case
  proof (cases "dispatch u site w")
    case (Abort e1 w1)
    with Cons.prems have "w1 = w'" by simp
    with dispatch_abort_keeps_executable [OF Abort] show ?thesis by auto
  next
    case (Done w1)
    with Cons.prems have "dispatch_all (map (dispatch u) sites) w1 = Abort e w'" by simp
    from Cons.IH [OF this] obtain k where "k < length sites"
      "action_idx (executable w') = action_idx (executable w1) + k"
      "action_specs (executable w') = action_specs (executable w1)" by blast
    with dispatch_done_advanced [OF Done] show ?thesis
      by (intro exI [of _ "Suc k"]) (simp add: advanced_def)
  qed
qed



lemma wind_down_payload_eq:
  "wind_down_payload = to_bytes_initiate_dissolution
     \<lparr>reason = wind_down, distribution_method = 1, burn_unsold_tokens = False,
      final_operations_deadline = 1000\<rparr>"
  by (simp add: wind_down_payload_def to_bytes_defs wind_down_def)

lemma decode_wind_down:
  "decode_initiate_dissolution wind_down_payload
     = Inr \<lparr>reason = wind_down, distribution_method = 1, burn_unsold_tokens = False,
            final_operations_deadline = 1000\<rparr>"
  using decode_initiate_append [where extra = "[]"] by (simp add: wind_down_payload_eq)

lemma decode_empty_reason:
  "decode_initiate_dissolution empty_reason_payload
     = Inr \<lparr>reason = [], distribution_method = 1, burn_unsold_tokens = False,
            final_operations_deadline = 1000\<rparr>"
  using decode_initiate_append [where extra = "[]"] by (simp add: empty_reason_payload_eq)


lemma decode_finalize_payload:
  "decode_finalize_dissolution finalize_payload = Inr (replicate 31 0 @ [1], False)"
  using decode_finalize_append [where extra = "[]" and r = "replicate 31 0 @ [1]"]
  by (simp add: finalize_payload_eq)

lemma address_one_not_zero: "replicate 31 0 @ [1 :: byte] \<noteq> address_zero"
proof
  assume "replicate 31 0 @ [1 :: byte] = address_zero"
  then have "(replicate 31 0 @ [1 :: byte]) ! 31 = address_zero ! 31" by simp
  then show False by (simp add: address_zero_def nth_append)
qed

lemmas site_eval = current_spec_one_action assert_action_type_def set_operational_state_def
  set_proposals_enabled_internal_def increment_action_idx_def

lemma initiate_wind_down:
  "do_initiate_dissolution (one_action InitiateDissolution 1 wind_down_payload state_active)
     = Done (reached InitiateDissolution 1 wind_down_payload 1 state_dissolving False)"
  by (simp add: do_initiate_dissolution_def site_eval decode_wind_down wind_down_def)
    (simp add: one_action_def reached_def)

lemma initiate_empty_reason:
  "do_initiate_dissolution (one_action InitiateDissolution 1 empty_reason_payload state_active)
     = Abort EInvalidRatio
         (reached InitiateDissolution 1 empty_reason_payload 0 state_dissolving False)"
  by (simp add: do_initiate_dissolution_def site_eval decode_empty_reason)
    (simp add: one_action_def reached_def)


lemma finalize_version_2:
  "do_finalize_dissolution (one_action FinalizeDissolution 2 finalize_payload state_dissolving)
     = Done (reached FinalizeDissolution 2 finalize_payload 1 state_dissolved True)"
  by (simp add: do_finalize_dissolution_def site_eval decode_finalize_payload
      address_one_not_zero)
    (simp add: one_action_def reached_def)

lemma template_version_2:
  "do_template FinalizeDissolution decode_finalize_dissolution (\<lambda>a c. (None, c))
     (one_action FinalizeDissolution 2 finalize_payload state_dissolving)
   = Abort EUnsupportedActionVersion
       (one_action FinalizeDissolution 2 finalize_payload state_dissolving)"
  by (simp add: do_template_def is_current_action_def current_spec_one_action and_then_def)

lemma template_memo:
  "do_template (TypeName ''MemoAction'') (\<lambda>bs. Inr ()) (\<lambda>a c. (None, c))
     (one_action (TypeName ''MemoAction'') 1 [] state_active)
   = Done (reached (TypeName ''MemoAction'') 1 [] 1 state_active True)"
  by (simp add: do_template_def is_current_action_def current_spec_one_action and_then_def
      increment_action_idx_def)
    (simp add: one_action_def reached_def)


section \<open>Version check\<close>

text \<open>
  C3. The dispatch site \<^verbatim>\<open>do_finalize_dissolution\<close> carries no version check: on a
  finalize action recorded with schema version 2 it decodes the payload, sets the state
  to dissolved and advances the cursor, where the generic template stops the same action
  with the unsupported-version code.
\<close>

theorem finalize_dissolution_ignores_version:
  "do_finalize_dissolution (one_action FinalizeDissolution 2 finalize_payload state_dissolving)
     = Done (reached FinalizeDissolution 2 finalize_payload 1 state_dissolved True)
   \<and> do_template FinalizeDissolution decode_finalize_dissolution (\<lambda>a c. (None, c))
        (one_action FinalizeDissolution 2 finalize_payload state_dissolving)
     = Abort EUnsupportedActionVersion
        (one_action FinalizeDissolution 2 finalize_payload state_dissolving)"
  using finalize_version_2 template_version_2 by (rule conjI)

section \<open>Failure leaves cursor and state\<close>



section \<open>Order of validation and mutation\<close>

text \<open>
  C7. \<^verbatim>\<open>do_initiate_dissolution\<close> sets the operational state and disables proposals
  before it checks the decoded parameters: with an empty reason it aborts on the reason
  check in a state that is already dissolving, having started from an active one.
\<close>

theorem initiate_dissolution_mutates_before_validation:
  "do_initiate_dissolution (one_action InitiateDissolution 1 empty_reason_payload state_active)
     = Abort EInvalidRatio
         (reached InitiateDissolution 1 empty_reason_payload 0 state_dissolving False)
   \<and> operational_state (account
         (one_action InitiateDissolution 1 empty_reason_payload state_active)) = state_active
   \<and> operational_state (account
         (reached InitiateDissolution 1 empty_reason_payload 0 state_dissolving False))
       = state_dissolving"
  using initiate_empty_reason by (simp add: one_action_def reached_def)

section \<open>Constructor\<close>




section \<open>Advance\<close>

text \<open>
  C5, amended. A run of dispatch operations that completes has moved the cursor by
  exactly one per operation, has left the intent's actions as they were, and keeps the
  cursor within the actions; a function built from the generic template moves the cursor
  by exactly one when it completes. Dispatch operations that return an obligation are not
  covered.
\<close>

theorem successful_dispatch_advances_once:
  "(dispatch_all (map (dispatch u) sites) w = Done w' \<longrightarrow>
        action_idx (executable w') = action_idx (executable w) + length sites
      \<and> action_specs (executable w') = action_specs (executable w)
      \<and> (action_idx (executable w) \<le> length (action_specs (executable w)) \<longrightarrow>
           action_idx (executable w') \<le> length (action_specs (executable w'))))
   \<and> (do_template t from_bytes rest w = Done w' \<longrightarrow>
        action_idx (executable w') = action_idx (executable w) + 1
      \<and> action_specs (executable w') = action_specs (executable w)
      \<and> action_idx (executable w') \<le> length (action_specs (executable w')))"
proof -
  have "sites = [] \<Longrightarrow> dispatch_all (map (dispatch u) sites) w = Done w' \<Longrightarrow> w' = w"
    by simp
  then show ?thesis
    using dispatch_all_done [of u sites w w'] template_done_advanced [of t from_bytes rest w w']
    by (cases "sites = []") (auto simp add: advanced_def)
qed

theorem successful_dispatch_advances_once_witness:
  "action_idx (executable (reached InitiateDissolution 1 wind_down_payload 1 state_dissolving False))
     = action_idx (executable (one_action InitiateDissolution 1 wind_down_payload state_active))
         + length [DoInitiateDissolution]
   \<and> action_idx (executable (reached (TypeName ''MemoAction'') 1 [] 1 state_active True))
     = action_idx (executable (one_action (TypeName ''MemoAction'') 1 [] state_active)) + 1"
proof -
  have h: "dispatch_all (map (dispatch (\<lambda>bs. True)) [DoInitiateDissolution])
       (one_action InitiateDissolution 1 wind_down_payload state_active)
     = Done (reached InitiateDissolution 1 wind_down_payload 1 state_dissolving False)"
    by (simp add: initiate_wind_down)
  from h template_memo
    successful_dispatch_advances_once [where u = "\<lambda>bs. True"
      and sites = "[DoInitiateDissolution]"
      and w = "one_action InitiateDissolution 1 wind_down_payload state_active"
      and w' = "reached InitiateDissolution 1 wind_down_payload 1 state_dissolving False"]
    successful_dispatch_advances_once [where t = "TypeName ''MemoAction''"
      and from_bytes = "\<lambda>bs. Inr ()" and rest = "\<lambda>a c. (None, c)"
      and w = "one_action (TypeName ''MemoAction'') 1 [] state_active"
      and w' = "reached (TypeName ''MemoAction'') 1 [] 1 state_active True"]
  show ?thesis by blast
qed

end
